theory Spec2Isabelle
  imports Main
begin

section \<open>The environment: files, streams and the calls of a run\<close>

text \<open>
  The two programs (\<^verbatim>\<open>06-file-read.c\<close> and \<^verbatim>\<open>07-file-write.c\<close>) consist of one
  \<^verbatim>\<open>main\<close> each, built from five functions of the C library: \<^verbatim>\<open>fopen\<close>,
  \<^verbatim>\<open>fgets\<close>, \<^verbatim>\<open>fprintf\<close>, \<^verbatim>\<open>fclose\<close> and \<^verbatim>\<open>printf\<close>. The library is modelled
  first, then each \<^verbatim>\<open>main\<close> statement by statement.

  A file is a sequence of bytes. A file system maps paths to files and says
  \<^item> which paths the process may not open for reading and which it may not open (or create)
    for writing: these are the reasons for which \<^verbatim>\<open>fopen\<close> returns \<^verbatim>\<open>NULL\<close>;
  \<^item> for some paths, the size beyond which the file cannot grow (the device is full, or a
    limit on the size of files applies): the bytes a stream writes past it are lost, and this
    is how a write fails on a stream that was opened with success.
  Reading from an open stream does not fail.
\<close>

type_synonym path = string

abbreviation newline :: char where
  "newline \<equiv> CHR 0x0A"

abbreviation NUL :: char where
  "NUL \<equiv> CHR 0x00"

record fsys =
  files :: "path \<rightharpoonup> string"
  read_denied :: "path set"
  write_denied :: "path set"
  capacity :: "path \<rightharpoonup> nat"

datatype mode = ReadMode | WriteMode

text \<open>
  A stream has the path and the mode it was opened with, its position in the file, and the
  bytes written to it that have not reached the file yet: a stream on a file is fully
  buffered, and the few bytes the writer prints stay in the buffer until \<^verbatim>\<open>fclose\<close>.
\<close>

record stream =
  s_path :: path
  s_mode :: mode
  s_pos :: nat
  s_buf :: string

text \<open>
  Every library call of a run is logged in order, with what it returned or transferred:
  the handle \<^verbatim>\<open>fopen\<close> returned (\<open>None\<close> for \<^verbatim>\<open>NULL\<close>), the bytes \<^verbatim>\<open>fgets\<close> stored
  into the caller's array (none when it returned \<^verbatim>\<open>NULL\<close>), the text printed.
\<close>

datatype call =
    Fopen path mode "nat option"
  | Fgets nat nat string
  | Fprintf nat string
  | Fclose nat
  | Printf string

text \<open>
  The state of a process: the file system it runs on, its table of \<^verbatim>\<open>FILE\<close> objects
  (a handle is an index in the table; a closed stream leaves \<open>None\<close> in its slot), what it
  has printed on standard output, and the log of its calls.
\<close>

record state =
  filesys :: fsys
  streams :: "stream option list"
  stdout :: string
  calls :: "call list"

definition start :: "fsys \<Rightarrow> state" where
  "start f = \<lparr>filesys = f, streams = [], stdout = [], calls = []\<rparr>"

text \<open>
  A run of \<^verbatim>\<open>main\<close> returns a status. \<open>Undefined\<close> stands for a run that uses the
  library in a way the model does not cover (a handle that is not an open stream, a
  directive other than \<^verbatim>\<open>%s\<close>, a store past the end of the array given to \<^verbatim>\<open>fgets\<close>);
  it carries the state reached just before. Neither program has such a run, which is part of
  what is proved below.
\<close>

datatype outcome = Exit int state | Undefined state

fun final :: "outcome \<Rightarrow> state" where
  "final (Exit r st) = st"
| "final (Undefined st) = st"

section \<open>The C library\<close>

text \<open>
  \<^verbatim>\<open>fopen(p, "r")\<close> succeeds when the file exists and may be read; \<^verbatim>\<open>fopen(p, "w")\<close>
  succeeds when the path may be written, and then truncates the file to length zero or creates
  it. The new stream is positioned at the start of the file.
\<close>

definition fopen :: "path \<Rightarrow> mode \<Rightarrow> state \<Rightarrow> nat option \<times> state" where
  "fopen p m st =
    (let f = filesys st;
         ok = (case m of
                 ReadMode \<Rightarrow> files f p \<noteq> None \<and> p \<notin> read_denied f
               | WriteMode \<Rightarrow> p \<notin> write_denied f);
         h = length (streams st)
     in if ok then
          (Some h,
           st\<lparr>filesys := (case m of
                            ReadMode \<Rightarrow> f
                          | WriteMode \<Rightarrow> f\<lparr>files := (files f)(p \<mapsto> [])\<rparr>),
              streams := streams st
                         @ [Some \<lparr>s_path = p, s_mode = m, s_pos = 0, s_buf = []\<rparr>],
              calls := calls st @ [Fopen p m (Some h)]\<rparr>)
        else (None, st\<lparr>calls := calls st @ [Fopen p m None]\<rparr>))"

text \<open>
  The bytes one \<^verbatim>\<open>fgets\<close> call transfers: at most \<open>k\<close> of them, none after a newline,
  which is kept.
\<close>

fun get_line :: "nat \<Rightarrow> string \<Rightarrow> string" where
  "get_line 0 cs = []"
| "get_line (Suc k) [] = []"
| "get_line (Suc k) (c # cs) = (if c = newline then [c] else c # get_line k cs)"

text \<open>
  Storing bytes at the start of an array. Bytes that do not fit would be written past the
  end of the array: \<open>None\<close>.
\<close>

definition store :: "string \<Rightarrow> string \<Rightarrow> string option" where
  "store bytes arr =
    (if length bytes \<le> length arr then Some (bytes @ drop (length bytes) arr) else None)"

text \<open>
  \<^verbatim>\<open>fgets(s, n, h)\<close> reads at most \<open>n - 1\<close> bytes and stores them in \<open>s\<close>, followed by a
  null byte. At end of file with no byte read it returns \<^verbatim>\<open>NULL\<close> and leaves the array
  as it was. The result is \<open>None\<close> when the call is not covered (no such open stream, or a
  stream not open for reading, or a store past the array); otherwise it holds whether the
  call returned \<open>s\<close> (rather than \<^verbatim>\<open>NULL\<close>), the array after the call, and the new state.
\<close>

definition fgets :: "string \<Rightarrow> nat \<Rightarrow> nat \<Rightarrow> state \<Rightarrow> (bool \<times> string \<times> state) option" where
  "fgets s n h st =
    (if h < length (streams st) then
       (case streams st ! h of
          None \<Rightarrow> None
        | Some strm \<Rightarrow>
            (case s_mode strm of
               WriteMode \<Rightarrow> None
             | ReadMode \<Rightarrow>
                 (let content = (case files (filesys st) (s_path strm) of
                                   None \<Rightarrow> [] | Some c \<Rightarrow> c);
                      got = get_line (n - 1) (drop (s_pos strm) content)
                  in if got = [] then
                       Some (False, s, st\<lparr>calls := calls st @ [Fgets h n []]\<rparr>)
                     else
                       (case store (got @ [NUL]) s of
                          None \<Rightarrow> None
                        | Some s' \<Rightarrow>
                            Some (True, s',
                                  st\<lparr>streams := (streams st)
                                       [h := Some (strm\<lparr>s_pos := s_pos strm + length got\<rparr>)],
                                     calls := calls st @ [Fgets h n (got @ [NUL])]\<rparr>)))))
     else None)"

text \<open>
  The string that \<^verbatim>\<open>%s\<close> reads when it is given an array: the bytes from the start of the
  array up to the first null byte. The read does not know where the array ends: when the
  array holds no null byte it runs on through the memory behind the array. That memory is
  given as \<open>behind\<close>, the bytes that follow the array up to a null byte that follows them
  (the stack of a process ends with the null pointers that close its argument and
  environment vectors, so there is one).
\<close>

definition c_str :: "string \<Rightarrow> string \<Rightarrow> string" where
  "c_str arr behind = takeWhile (\<lambda>c. c \<noteq> NUL) (arr @ behind)"

text \<open>
  Formatting, for the directives the two programs use: ordinary characters are copied,
  \<^verbatim>\<open>%s\<close> copies the next argument, a string. Anything else after \<^verbatim>\<open>%\<close>, or a
  missing argument, is \<open>None\<close>.
\<close>

fun format :: "string \<Rightarrow> string list \<Rightarrow> string option" where
  "format [] args = Some []"
| "format [c] args = (if c = CHR ''%'' then None else Some [c])"
| "format (c # d # cs) args =
    (if c = CHR ''%'' then
       (if d = CHR ''s'' then
          (case args of
             [] \<Rightarrow> None
           | a # as \<Rightarrow> map_option (\<lambda>out. a @ out) (format cs as))
        else None)
     else map_option (\<lambda>out. c # out) (format (d # cs) args))"

definition printf :: "string \<Rightarrow> string list \<Rightarrow> state \<Rightarrow> state option" where
  "printf fmt args st =
    (case format fmt args of
       None \<Rightarrow> None
     | Some text \<Rightarrow> Some (st\<lparr>stdout := stdout st @ text, calls := calls st @ [Printf text]\<rparr>))"

text \<open>
  \<^verbatim>\<open>fprintf(h, fmt, ...)\<close> on a stream open for writing puts the formatted text in the
  buffer of the stream and returns the number of bytes.
\<close>

definition fprintf :: "nat \<Rightarrow> string \<Rightarrow> string list \<Rightarrow> state \<Rightarrow> (int \<times> state) option" where
  "fprintf h fmt args st =
    (if h < length (streams st) then
       (case streams st ! h of
          None \<Rightarrow> None
        | Some strm \<Rightarrow>
            (case s_mode strm of
               ReadMode \<Rightarrow> None
             | WriteMode \<Rightarrow>
                 (case format fmt args of
                    None \<Rightarrow> None
                  | Some text \<Rightarrow>
                      Some (int (length text),
                            st\<lparr>streams := (streams st)
                                 [h := Some (strm\<lparr>s_buf := s_buf strm @ text\<rparr>)],
                               calls := calls st @ [Fprintf h text]\<rparr>))))
     else None)"

text \<open>
  Flushing a stream writes its buffer to the file at the position of the stream, over what
  the file holds there. Only the bytes that lie below the capacity of the file are written;
  the flush has failed when some are not.
\<close>

definition flush :: "stream \<Rightarrow> fsys \<Rightarrow> bool \<times> fsys" where
  "flush strm f =
    (if s_buf strm = [] then (True, f)
     else
       (let p = s_path strm;
            old = (case files f p of None \<Rightarrow> [] | Some c \<Rightarrow> c);
            room = (case capacity f p of
                      None \<Rightarrow> length (s_buf strm)
                    | Some k \<Rightarrow> k - s_pos strm);
            out = take room (s_buf strm);
            new = take (s_pos strm) old @ out @ drop (s_pos strm + length out) old
        in (length out = length (s_buf strm), f\<lparr>files := (files f)(p \<mapsto> new)\<rparr>)))"

text \<open>
  \<^verbatim>\<open>fclose(h)\<close> flushes a stream open for writing and releases the stream. It returns 0,
  or \<^verbatim>\<open>EOF\<close> when the flush failed; the stream is released in both cases.
\<close>

definition fclose :: "nat \<Rightarrow> state \<Rightarrow> (int \<times> state) option" where
  "fclose h st =
    (if h < length (streams st) then
       (case streams st ! h of
          None \<Rightarrow> None
        | Some strm \<Rightarrow>
            (let (ok, f') = (case s_mode strm of
                               ReadMode \<Rightarrow> (True, filesys st)
                             | WriteMode \<Rightarrow> flush strm (filesys st))
             in Some (if ok then 0 else - 1,
                      st\<lparr>filesys := f',
                         streams := (streams st)[h := None],
                         calls := calls st @ [Fclose h]\<rparr>)))
     else None)"

section \<open>The reader: 06-file-read.c\<close>

text \<open>
  \<^verbatim>\<open>char buffer[100]\<close> is not initialised: its 100 bytes are whatever the stack holds,
  given here as \<open>stack\<close> (byte \<open>i\<close> of the array is \<open>stack i\<close>), and \<open>behind\<close> is the
  memory that follows the array. The values that \<^verbatim>\<open>fgets\<close> and \<^verbatim>\<open>fclose\<close> return are
  dropped, as in the source.
\<close>

definition main_file_read :: "(nat \<Rightarrow> char) \<Rightarrow> string \<Rightarrow> fsys \<Rightarrow> outcome" where
  "main_file_read stack behind f =
    (case fopen ''test.txt'' ReadMode (start f) of
       (None, s1) \<Rightarrow>
         (case printf (''Could not open file'' @ [newline]) [] s1 of
            None \<Rightarrow> Undefined s1
          | Some s2 \<Rightarrow> Exit 1 s2)
     | (Some file, s1) \<Rightarrow>
         (let buffer = map stack [0..<100]
          in case fgets buffer 100 file s1 of
               None \<Rightarrow> Undefined s1
             | Some (_, buffer', s2) \<Rightarrow>
                 (case printf (''Read: %s'' @ [newline]) [c_str buffer' behind] s2 of
                    None \<Rightarrow> Undefined s2
                  | Some s3 \<Rightarrow>
                      (case fclose file s3 of
                         None \<Rightarrow> Undefined s3
                       | Some (_, s4) \<Rightarrow> Exit 0 s4))))"

section \<open>The writer: 07-file-write.c\<close>

text \<open>
  The values that \<^verbatim>\<open>fprintf\<close> and \<^verbatim>\<open>fclose\<close> return are dropped, as in the source: a
  write that fails does not change what the writer prints or returns.
\<close>

definition main_file_write :: "fsys \<Rightarrow> outcome" where
  "main_file_write f =
    (case fopen ''output.txt'' WriteMode (start f) of
       (None, s1) \<Rightarrow>
         (case printf (''Could not create file'' @ [newline]) [] s1 of
            None \<Rightarrow> Undefined s1
          | Some s2 \<Rightarrow> Exit 1 s2)
     | (Some file, s1) \<Rightarrow>
         (case fprintf file (''Hello from C!'' @ [newline]) [] s1 of
            None \<Rightarrow> Undefined s1
          | Some (_, s2) \<Rightarrow>
              (case fclose file s2 of
                 None \<Rightarrow> Undefined s2
               | Some (_, s3) \<Rightarrow>
                   (case printf (''File written successfully'' @ [newline]) [] s3 of
                      None \<Rightarrow> Undefined s3
                    | Some s4 \<Rightarrow> Exit 0 s4))))"

section \<open>Observations on a run\<close>

fun status :: "outcome \<Rightarrow> int option" where
  "status (Exit r st) = Some r"
| "status (Undefined st) = None"

text \<open>The file system a run of the writer leaves behind, on which the next run starts.\<close>

definition written :: "fsys \<Rightarrow> fsys" where
  "written f = filesys (final (main_file_write f))"

text \<open>Whether a file can grow to \<open>n\<close> bytes.\<close>

definition fits :: "fsys \<Rightarrow> path \<Rightarrow> nat \<Rightarrow> bool" where
  "fits f p n = (case capacity f p of None \<Rightarrow> True | Some k \<Rightarrow> n \<le> k)"

text \<open>The first line of a file, without its terminator.\<close>

definition first_line :: "string \<Rightarrow> string" where
  "first_line cs = takeWhile (\<lambda>c. c \<noteq> newline) cs"

text \<open>
  The handles a run acquired (every successful \<^verbatim>\<open>fopen\<close>) and the handles it released
  (every \<^verbatim>\<open>fclose\<close>), in the order of the calls, and the handles still open in a state.
\<close>

fun acquired :: "call list \<Rightarrow> nat list" where
  "acquired [] = []"
| "acquired (Fopen p m (Some h) # cs) = h # acquired cs"
| "acquired (c # cs) = acquired cs"

fun released :: "call list \<Rightarrow> nat list" where
  "released [] = []"
| "released (Fclose h # cs) = h # released cs"
| "released (c # cs) = released cs"

definition open_handles :: "state \<Rightarrow> nat list" where
  "open_handles st = filter (\<lambda>h. streams st ! h \<noteq> None) [0..<length (streams st)]"

text \<open>The calls that can change a file: opening it for writing, and writing to it.\<close>

fun modifying :: "call \<Rightarrow> bool" where
  "modifying (Fopen p WriteMode h) = True"
| "modifying (Fprintf h t) = True"
| "modifying c = False"

section \<open>Example file systems and stacks\<close>

definition no_files :: fsys where
  "no_files = \<lparr>files = Map.empty, read_denied = {}, write_denied = {}, capacity = Map.empty\<rparr>"

definition with_test :: "string \<Rightarrow> fsys" where
  "with_test c =
     \<lparr>files = [''test.txt'' \<mapsto> c], read_denied = {}, write_denied = {}, capacity = Map.empty\<rparr>"

definition protected_test :: "string \<Rightarrow> fsys" where
  "protected_test c =
     \<lparr>files = [''test.txt'' \<mapsto> c], read_denied = {''test.txt''}, write_denied = {},
      capacity = Map.empty\<rparr>"

definition with_output :: "string \<Rightarrow> fsys" where
  "with_output c =
     \<lparr>files = [''output.txt'' \<mapsto> c], read_denied = {}, write_denied = {},
      capacity = Map.empty\<rparr>"

definition locked_output :: "string \<Rightarrow> fsys" where
  "locked_output c =
     \<lparr>files = [''output.txt'' \<mapsto> c], read_denied = {}, write_denied = {''output.txt''},
      capacity = Map.empty\<rparr>"

text \<open>A file system on which \<^verbatim>\<open>output.txt\<close> can be opened for writing but cannot grow.\<close>

definition full_output :: "string \<Rightarrow> fsys" where
  "full_output c =
     \<lparr>files = [''output.txt'' \<mapsto> c], read_denied = {}, write_denied = {},
      capacity = [''output.txt'' \<mapsto> 0]\<rparr>"

definition stack_x :: "nat \<Rightarrow> char" where
  "stack_x i = CHR ''x''"

definition stack_y :: "nat \<Rightarrow> char" where
  "stack_y i = CHR ''y''"

definition long_line :: string where
  "long_line = replicate 150 (CHR ''a'') @ [newline]"

definition long_line_with_NUL :: string where
  "long_line_with_NUL = ''ab'' @ NUL # replicate 120 (CHR ''c'') @ [newline]"

definition late_NUL_line :: string where
  "late_NUL_line = replicate 120 (CHR ''a'') @ NUL # ''bb''"

section \<open>What the library functions compute\<close>

lemma length_get_line: "length (get_line k cs) \<le> k"
  by (induction k cs rule: get_line.induct) auto

lemma get_line_eq_Nil: "get_line k cs = [] \<longleftrightarrow> k = 0 \<or> cs = []"
  by (induction k cs rule: get_line.induct) auto

lemma get_line_first_line:
  "newline \<notin> set l \<Longrightarrow> get_line k (l @ newline # rest) = take k (l @ [newline])"
proof (induction l arbitrary: k)
  case Nil
  then show ?case by (cases k) auto
next
  case (Cons a l)
  then show ?case by (cases k) auto
qed

lemma get_line_no_newline:
  "newline \<notin> set (take k cs) \<Longrightarrow> get_line k cs = take k cs"
  by (induction k cs rule: get_line.induct) auto

lemma c_str_terminated:
  "c_str (got @ NUL # rest) behind = takeWhile (\<lambda>c. c \<noteq> NUL) got"
  by (simp add: c_str_def takeWhile_tail)

lemma c_str_no_NUL:
  "NUL \<notin> set arr \<Longrightarrow> c_str arr behind = arr @ takeWhile (\<lambda>c. c \<noteq> NUL) behind"
  unfolding c_str_def by (induction arr) auto

lemma takeWhile_no_NUL: "NUL \<notin> set got \<Longrightarrow> takeWhile (\<lambda>c. c \<noteq> NUL) got = got"
  by (induction got) auto

lemma store_line:
  "length got < 100 \<Longrightarrow>
   store (got @ [NUL]) (map stack [0..<100])
     = Some (got @ NUL # drop (Suc (length got)) (map stack [0..<100]))"
  by (simp add: store_def)

lemma first_line_long:
  assumes "99 < length (first_line c)"
  shows "get_line 99 c = take 99 c" and "99 < length c" and "c \<noteq> []"
proof -
  have "take 99 (first_line c @ dropWhile (\<lambda>x. x \<noteq> newline) c) = take 99 (first_line c)"
    using assms by simp
  then have "take 99 c = take 99 (first_line c)"
    by (simp add: first_line_def)
  then have "newline \<notin> set (take 99 c)"
    unfolding first_line_def by (auto dest!: in_set_takeD set_takeWhileD)
  then show "get_line 99 c = take 99 c"
    by (rule get_line_no_newline)
  have "length (first_line c) \<le> length c"
    unfolding first_line_def by (rule length_takeWhile_le)
  with assms show "99 < length c" and "c \<noteq> []"
    by auto
qed

lemma first_line_long_line: "first_line long_line = replicate 150 (CHR ''a'')"
  by (simp add: first_line_def long_line_def takeWhile_tail)

lemma first_line_long_line_with_NUL:
  "first_line long_line_with_NUL = ''ab'' @ NUL # replicate 120 (CHR ''c'')"
  by (simp add: first_line_def long_line_with_NUL_def takeWhile_tail)

lemma buffer_stack_x: "map stack_x [0..<100] = replicate 100 (CHR ''x'')"
proof -
  have "map stack_x [0..<100] = map (\<lambda>i. CHR ''x'') [0..<100]"
    by (rule map_cong) (simp_all add: stack_x_def)
  also have "\<dots> = replicate (length [0..<100]) (CHR ''x'')"
    by (rule map_replicate_const)
  finally show ?thesis
    by (simp del: upt_rec_numeral)
qed

lemma buffer_stack_y: "map stack_y [0..<100] = replicate 100 (CHR ''y'')"
proof -
  have "map stack_y [0..<100] = map (\<lambda>i. CHR ''y'') [0..<100]"
    by (rule map_cong) (simp_all add: stack_y_def)
  also have "\<dots> = replicate (length [0..<100]) (CHR ''y'')"
    by (rule map_replicate_const)
  finally show ?thesis
    by (simp del: upt_rec_numeral)
qed

section \<open>The runs of the writer\<close>

lemma main_file_write_denied:
  "''output.txt'' \<in> write_denied f \<Longrightarrow>
   main_file_write f =
     Exit 1 \<lparr>filesys = f, streams = [],
             stdout = ''Could not create file'' @ [newline],
             calls = [Fopen ''output.txt'' WriteMode None,
                      Printf (''Could not create file'' @ [newline])]\<rparr>"
  unfolding main_file_write_def
  by (simp add: fopen_def start_def printf_def)

text \<open>
  When the open succeeds the writer returns 0 whatever becomes of the write, and the file
  holds the bytes of the line that lie below its capacity.
\<close>

lemma main_file_write_opened:
  "''output.txt'' \<notin> write_denied f \<Longrightarrow>
   main_file_write f =
     Exit 0 \<lparr>filesys = f\<lparr>files := (files f)(''output.txt'' \<mapsto>
                          (case capacity f ''output.txt'' of
                             None \<Rightarrow> ''Hello from C!'' @ [newline]
                           | Some k \<Rightarrow> take k (''Hello from C!'' @ [newline])))\<rparr>,
             streams = [None],
             stdout = ''File written successfully'' @ [newline],
             calls = [Fopen ''output.txt'' WriteMode (Some 0),
                      Fprintf 0 (''Hello from C!'' @ [newline]),
                      Fclose 0,
                      Printf (''File written successfully'' @ [newline])]\<rparr>"
  unfolding main_file_write_def
  by (cases "capacity f ''output.txt''")
     (simp_all add: fopen_def start_def printf_def fprintf_def fclose_def flush_def Let_def)

lemma main_file_write_ok:
  assumes "''output.txt'' \<notin> write_denied f"
      and "fits f ''output.txt'' (length (''Hello from C!'' @ [newline]))"
  shows "main_file_write f =
     Exit 0 \<lparr>filesys = f\<lparr>files := (files f)(''output.txt'' \<mapsto> ''Hello from C!'' @ [newline])\<rparr>,
             streams = [None],
             stdout = ''File written successfully'' @ [newline],
             calls = [Fopen ''output.txt'' WriteMode (Some 0),
                      Fprintf 0 (''Hello from C!'' @ [newline]),
                      Fclose 0,
                      Printf (''File written successfully'' @ [newline])]\<rparr>"
  using assms(2) main_file_write_opened [OF assms(1)]
  by (cases "capacity f ''output.txt''") (simp_all add: fits_def)

lemma written_opened:
  "''output.txt'' \<notin> write_denied f \<Longrightarrow>
   written f = f\<lparr>files := (files f)(''output.txt'' \<mapsto>
                  (case capacity f ''output.txt'' of
                     None \<Rightarrow> ''Hello from C!'' @ [newline]
                   | Some k \<Rightarrow> take k (''Hello from C!'' @ [newline])))\<rparr>"
  by (simp add: written_def main_file_write_opened)

lemma written_denied: "''output.txt'' \<in> write_denied f \<Longrightarrow> written f = f"
  by (simp add: written_def main_file_write_denied)

lemma written_twice: "written (written f) = written f"
proof (cases "''output.txt'' \<in> write_denied f")
  case True
  then show ?thesis by (simp add: written_denied)
next
  case False
  note w1 = written_opened [OF False]
  have "''output.txt'' \<notin> write_denied (written f)"
    using False by (simp add: w1)
  then show ?thesis
    by (subst written_opened) (simp_all add: w1)
qed

section \<open>The runs of the reader\<close>

lemma main_file_read_fail:
  "files f ''test.txt'' = None \<or> ''test.txt'' \<in> read_denied f \<Longrightarrow>
   main_file_read stack behind f =
     Exit 1 \<lparr>filesys = f, streams = [],
             stdout = ''Could not open file'' @ [newline],
             calls = [Fopen ''test.txt'' ReadMode None,
                      Printf (''Could not open file'' @ [newline])]\<rparr>"
  unfolding main_file_read_def
  by (auto simp add: fopen_def start_def printf_def)

lemma main_file_read_nonempty:
  assumes "files f ''test.txt'' = Some c" and "''test.txt'' \<notin> read_denied f" and "c \<noteq> []"
  shows "main_file_read stack behind f =
     Exit 0 \<lparr>filesys = f, streams = [None],
             stdout = ''Read: '' @ takeWhile (\<lambda>c. c \<noteq> NUL) (get_line 99 c) @ [newline],
             calls = [Fopen ''test.txt'' ReadMode (Some 0),
                      Fgets 0 100 (get_line 99 c @ [NUL]),
                      Printf (''Read: '' @ takeWhile (\<lambda>c. c \<noteq> NUL) (get_line 99 c)
                              @ [newline]),
                      Fclose 0]\<rparr>"
proof -
  have len: "length (get_line 99 c) < 100"
    using length_get_line [of 99 c] by simp
  have ne: "get_line 99 c \<noteq> []"
    using assms(3) by (simp add: get_line_eq_Nil)
  show ?thesis
    unfolding main_file_read_def
    using assms(1,2) ne
    by (simp add: fopen_def start_def fgets_def printf_def fclose_def
          store_line [OF len] c_str_terminated Let_def)
qed

text \<open>
  On an empty file \<^verbatim>\<open>fgets\<close> stores nothing, and the reader prints what the
  uninitialised array and the memory behind it hold up to the first null byte.
\<close>

lemma main_file_read_empty:
  assumes "files f ''test.txt'' = Some []" and "''test.txt'' \<notin> read_denied f"
  shows "main_file_read stack behind f =
     Exit 0 \<lparr>filesys = f, streams = [None],
             stdout = ''Read: '' @ c_str (map stack [0..<100]) behind @ [newline],
             calls = [Fopen ''test.txt'' ReadMode (Some 0),
                      Fgets 0 100 [],
                      Printf (''Read: '' @ c_str (map stack [0..<100]) behind @ [newline]),
                      Fclose 0]\<rparr>"
proof -
  have nil: "get_line 99 [] = []"
    by (simp add: get_line_eq_Nil)
  show ?thesis
    unfolding main_file_read_def
    using assms
    by (simp add: fopen_def start_def fgets_def printf_def fclose_def nil Let_def
          del: upt_rec_numeral)
qed

section \<open>The reader on a file it can open\<close>

text \<open>
  Claim C1, as amended. When \<^verbatim>\<open>test.txt\<close> can be opened for reading, its first line is
  terminated by a newline, and none of the bytes read from that line (its first 99 bytes,
  the newline included) is a null byte, the reader prints \<^verbatim>\<open>Read: \<close>, then that first
  line up to and including its newline or up to 99 bytes, whichever comes first, then the
  newline of the format, and it exits with status 0.
\<close>

theorem reader_prints_first_line:
  assumes "files f ''test.txt'' = Some (l @ newline # rest)"
      and "newline \<notin> set l"
      and "NUL \<notin> set (take 99 (l @ [newline]))"
      and "''test.txt'' \<notin> read_denied f"
  shows "status (main_file_read stack behind f) = Some 0
       \<and> stdout (final (main_file_read stack behind f))
           = ''Read: '' @ take 99 (l @ [newline]) @ [newline]"
proof -
  have got: "get_line 99 (l @ newline # rest) = take 99 (l @ [newline])"
    using assms(2) by (rule get_line_first_line)
  have "takeWhile (\<lambda>c. c \<noteq> NUL) (take 99 (l @ [newline])) = take 99 (l @ [newline])"
    using assms(3) by (rule takeWhile_no_NUL)
  with got show ?thesis
    using main_file_read_nonempty [OF assms(1) assms(4), of stack behind] by simp
qed

text \<open>
  Two instances: a short first line, and a first line of 123 bytes whose only null byte is
  byte 121, which is not read.
\<close>

theorem reader_prints_first_line_witness:
  "status (main_file_read stack_x ''~'' (with_test (''hi'' @ newline # ''more''))) = Some 0
   \<and> stdout (final (main_file_read stack_x ''~'' (with_test (''hi'' @ newline # ''more''))))
       = ''Read: hi'' @ [newline, newline]
   \<and> status (main_file_read stack_x ''~'' (with_test (late_NUL_line @ newline # ''more'')))
       = Some 0
   \<and> stdout (final (main_file_read stack_x ''~'' (with_test (late_NUL_line @ newline # ''more''))))
       = ''Read: '' @ replicate 99 (CHR ''a'') @ [newline]"
proof -
  have short:
    "status (main_file_read stack_x ''~'' (with_test (''hi'' @ newline # ''more''))) = Some 0
     \<and> stdout (final (main_file_read stack_x ''~'' (with_test (''hi'' @ newline # ''more''))))
         = ''Read: hi'' @ [newline, newline]"
    using reader_prints_first_line
            [of "with_test (''hi'' @ newline # ''more'')" "''hi''" "''more''" stack_x "''~''"]
    by (simp add: with_test_def)
  have tk: "take 99 (late_NUL_line @ [newline]) = replicate 99 (CHR ''a'')"
    by (simp add: late_NUL_line_def)
  have content: "files (with_test (late_NUL_line @ newline # ''more'')) ''test.txt''
      = Some (late_NUL_line @ newline # ''more'')"
    and readable: "''test.txt'' \<notin> read_denied (with_test (late_NUL_line @ newline # ''more''))"
    by (simp_all add: with_test_def)
  have nl: "newline \<notin> set late_NUL_line"
    by (simp add: late_NUL_line_def)
  have nul: "NUL \<notin> set (take 99 (late_NUL_line @ [newline]))"
    unfolding tk by simp
  have long:
    "status (main_file_read stack_x ''~'' (with_test (late_NUL_line @ newline # ''more'')))
       = Some 0
     \<and> stdout (final (main_file_read stack_x ''~''
                       (with_test (late_NUL_line @ newline # ''more''))))
         = ''Read: '' @ replicate 99 (CHR ''a'') @ [newline]"
    using reader_prints_first_line [OF content nl nul readable, of stack_x "''~''"]
    by (simp only: tk)
  from short long show ?thesis by simp
qed

text \<open>
  The claim as it was stated asks only that \<^verbatim>\<open>test.txt\<close> exists and that its first line
  ends with a newline. It fails on a file that exists but may not be read (the reader exits
  with status 1), and on a first line \<^verbatim>\<open>a\0b\<close>: \<^verbatim>\<open>fgets\<close> stores the whole line, but
  \<^verbatim>\<open>%s\<close> stops at the null byte and only \<^verbatim>\<open>a\<close> is printed.
\<close>

theorem reader_first_line_counterexample:
  "status (main_file_read stack_x ''~'' (protected_test (''hi'' @ [newline]))) = Some 1
   \<and> stdout (final (main_file_read stack_x ''~'' (with_test (''a'' @ NUL # ''b'' @ [newline]))))
       = ''Read: a'' @ [newline]
   \<and> stdout (final (main_file_read stack_x ''~'' (with_test (''a'' @ NUL # ''b'' @ [newline]))))
       \<noteq> ''Read: '' @ take 99 (''a'' @ NUL # ''b'' @ [newline]) @ [newline]"
proof -
  have "main_file_read stack_x ''~'' (protected_test (''hi'' @ [newline])) =
     Exit 1 \<lparr>filesys = protected_test (''hi'' @ [newline]), streams = [],
             stdout = ''Could not open file'' @ [newline],
             calls = [Fopen ''test.txt'' ReadMode None,
                      Printf (''Could not open file'' @ [newline])]\<rparr>"
    by (rule main_file_read_fail) (simp add: protected_test_def)
  moreover have "main_file_read stack_x ''~'' (with_test (''a'' @ NUL # ''b'' @ [newline])) =
     Exit 0 \<lparr>filesys = with_test (''a'' @ NUL # ''b'' @ [newline]), streams = [None],
             stdout = ''Read: a'' @ [newline],
             calls = [Fopen ''test.txt'' ReadMode (Some 0),
                      Fgets 0 100 (''a'' @ NUL # ''b'' @ [newline, NUL]),
                      Printf (''Read: a'' @ [newline]),
                      Fclose 0]\<rparr>"
    using main_file_read_nonempty
            [of "with_test (''a'' @ NUL # ''b'' @ [newline])" "''a'' @ NUL # ''b'' @ [newline]"
                stack_x "''~''"]
          get_line_first_line [of "''a'' @ NUL # ''b''" 99 "[]"]
    by (simp add: with_test_def)
  ultimately show ?thesis by simp
qed

section \<open>The reader on a file it cannot open\<close>

text \<open>
  Claim C3. When \<^verbatim>\<open>test.txt\<close> cannot be opened (it does not exist, or it may not be
  read), the reader prints a failure message and exits with status 1. Its only calls are the
  failed \<^verbatim>\<open>fopen\<close> and the \<^verbatim>\<open>printf\<close> of the message: \<^verbatim>\<open>fgets\<close> is not called, so
  nothing is read into the buffer. Apart from the message and the log of these two calls the
  process is in the state it started in: the file system is unchanged and no stream is open.
\<close>

theorem reader_open_failure:
  assumes "files f ''test.txt'' = None \<or> ''test.txt'' \<in> read_denied f"
  shows "main_file_read stack behind f =
           Exit 1 ((start f)\<lparr>stdout := ''Could not open file'' @ [newline],
                            calls := [Fopen ''test.txt'' ReadMode None,
                                      Printf (''Could not open file'' @ [newline])]\<rparr>)"
  using main_file_read_fail [OF assms] by (simp add: start_def)

theorem reader_open_failure_witness:
  "main_file_read stack_x ''~'' no_files =
     Exit 1 \<lparr>filesys = no_files, streams = [],
             stdout = ''Could not open file'' @ [newline],
             calls = [Fopen ''test.txt'' ReadMode None,
                      Printf (''Could not open file'' @ [newline])]\<rparr>
   \<and> main_file_read stack_x ''~'' (protected_test ''hi'') =
     Exit 1 \<lparr>filesys = protected_test ''hi'', streams = [],
             stdout = ''Could not open file'' @ [newline],
             calls = [Fopen ''test.txt'' ReadMode None,
                      Printf (''Could not open file'' @ [newline])]\<rparr>"
  using reader_open_failure [of no_files stack_x "''~''"]
        reader_open_failure [of "protected_test ''hi''" stack_x "''~''"]
  by (simp add: no_files_def protected_test_def start_def)

section \<open>The reader on a long first line\<close>

text \<open>
  Claim C5, as amended. When \<^verbatim>\<open>test.txt\<close> can be opened for reading and its first line
  is longer than 99 characters, the read stores exactly the first 99 characters followed by
  the terminator: 100 bytes, the capacity of the buffer and no more. The reader exits with
  status 0 and reports those characters up to the first null byte among them, hence all 99
  of them when none is a null byte.
\<close>

theorem reader_truncates_long_line:
  assumes "files f ''test.txt'' = Some c" and "''test.txt'' \<notin> read_denied f"
      and "99 < length (first_line c)"
  shows "status (main_file_read stack behind f) = Some 0
       \<and> calls (final (main_file_read stack behind f)) ! 1 = Fgets 0 100 (take 99 c @ [NUL])
       \<and> length (take 99 c @ [NUL]) = 100
       \<and> stdout (final (main_file_read stack behind f))
           = ''Read: '' @ takeWhile (\<lambda>x. x \<noteq> NUL) (take 99 c) @ [newline]
       \<and> (NUL \<notin> set (take 99 c) \<longrightarrow>
            stdout (final (main_file_read stack behind f)) = ''Read: '' @ take 99 c @ [newline])"
  using main_file_read_nonempty
          [OF assms(1,2) first_line_long(3) [OF assms(3)], of stack behind]
  by (simp add: first_line_long(1,2) [OF assms(3)] takeWhile_no_NUL)

theorem reader_truncates_long_line_witness:
  "status (main_file_read stack_x ''~'' (with_test long_line)) = Some 0
   \<and> calls (final (main_file_read stack_x ''~'' (with_test long_line))) ! 1
       = Fgets 0 100 (replicate 99 (CHR ''a'') @ [NUL])
   \<and> stdout (final (main_file_read stack_x ''~'' (with_test long_line)))
       = ''Read: '' @ replicate 99 (CHR ''a'') @ [newline]"
proof -
  have "files (with_test long_line) ''test.txt'' = Some long_line"
    and "''test.txt'' \<notin> read_denied (with_test long_line)"
    and "99 < length (first_line long_line)"
    and "take 99 long_line = replicate 99 (CHR ''a'')"
    by (simp_all add: with_test_def first_line_long_line) (simp add: long_line_def)
  with reader_truncates_long_line [of "with_test long_line" long_line stack_x "''~''"]
  show ?thesis by simp
qed

text \<open>
  As it was stated the claim fails on a long first line with a null byte among its first 99
  characters (here \<^verbatim>\<open>ab\0ccc...\<close>: only \<^verbatim>\<open>ab\<close> is reported), and on a file with a long
  first line that may not be read (nothing is read or reported).
\<close>

theorem reader_truncates_long_line_counterexample:
  "99 < length (first_line long_line_with_NUL)
   \<and> take 99 long_line_with_NUL = ''ab'' @ NUL # replicate 96 (CHR ''c'')
   \<and> stdout (final (main_file_read stack_x ''~'' (with_test long_line_with_NUL)))
       = ''Read: ab'' @ [newline]
   \<and> stdout (final (main_file_read stack_x ''~'' (with_test long_line_with_NUL)))
       \<noteq> ''Read: '' @ take 99 long_line_with_NUL @ [newline]
   \<and> status (main_file_read stack_x ''~'' (protected_test long_line)) = Some 1"
proof -
  have long: "99 < length (first_line long_line_with_NUL)"
    by (simp add: first_line_long_line_with_NUL)
  have tk: "take 99 long_line_with_NUL = ''ab'' @ NUL # replicate 96 (CHR ''c'')"
    by (simp add: long_line_with_NUL_def)
  have "main_file_read stack_x ''~'' (with_test long_line_with_NUL) =
     Exit 0 \<lparr>filesys = with_test long_line_with_NUL, streams = [None],
             stdout = ''Read: ab'' @ [newline],
             calls = [Fopen ''test.txt'' ReadMode (Some 0),
                      Fgets 0 100 (''ab'' @ NUL # replicate 96 (CHR ''c'') @ [NUL]),
                      Printf (''Read: ab'' @ [newline]),
                      Fclose 0]\<rparr>"
    using main_file_read_nonempty
            [of "with_test long_line_with_NUL" long_line_with_NUL stack_x "''~''"]
          first_line_long [OF long]
    by (simp add: with_test_def tk)
  moreover have "main_file_read stack_x ''~'' (protected_test long_line) =
     Exit 1 \<lparr>filesys = protected_test long_line, streams = [],
             stdout = ''Could not open file'' @ [newline],
             calls = [Fopen ''test.txt'' ReadMode None,
                      Printf (''Could not open file'' @ [newline])]\<rparr>"
    by (rule main_file_read_fail) (simp add: protected_test_def)
  ultimately show ?thesis using long tk by simp
qed

section \<open>The reader on an empty file\<close>

text \<open>
  Claim C6 says that the buffer holds a terminated string after the read call, also when the
  file is empty, so that the print never reads indeterminate memory. On an empty
  \<^verbatim>\<open>test.txt\<close>, with a stack that holds no null byte in the 100 bytes of the buffer, the
  code does otherwise: \<^verbatim>\<open>fgets\<close> returns \<^verbatim>\<open>NULL\<close> and stores nothing, the buffer is
  still the uninitialised array and holds no null byte, and the \<^verbatim>\<open>printf\<close> that follows
  prints its 100 uninitialised bytes and runs on past its end, here through the 10 bytes
  \<^verbatim>\<open>0123456789\<close> that lie behind it.
\<close>

theorem reader_empty_file_buffer:
  "fgets (map stack_x [0..<100]) 100 0 (snd (fopen ''test.txt'' ReadMode (start (with_test []))))
     = Some (False, map stack_x [0..<100],
             \<lparr>filesys = with_test [],
              streams = [Some \<lparr>s_path = ''test.txt'', s_mode = ReadMode, s_pos = 0,
                               s_buf = []\<rparr>],
              stdout = [],
              calls = [Fopen ''test.txt'' ReadMode (Some 0), Fgets 0 100 []]\<rparr>)
   \<and> NUL \<notin> set (map stack_x [0..<100])
   \<and> main_file_read stack_x ''0123456789'' (with_test []) =
       Exit 0 \<lparr>filesys = with_test [], streams = [None],
               stdout = ''Read: '' @ replicate 100 (CHR ''x'') @ ''0123456789'' @ [newline],
               calls = [Fopen ''test.txt'' ReadMode (Some 0),
                        Fgets 0 100 [],
                        Printf (''Read: '' @ replicate 100 (CHR ''x'') @ ''0123456789''
                                @ [newline]),
                        Fclose 0]\<rparr>"
proof -
  have nil: "get_line 99 [] = []"
    by (simp add: get_line_eq_Nil)
  have "fgets (map stack_x [0..<100]) 100 0
          (snd (fopen ''test.txt'' ReadMode (start (with_test []))))
     = Some (False, map stack_x [0..<100],
             \<lparr>filesys = with_test [],
              streams = [Some \<lparr>s_path = ''test.txt'', s_mode = ReadMode, s_pos = 0,
                               s_buf = []\<rparr>],
              stdout = [],
              calls = [Fopen ''test.txt'' ReadMode (Some 0), Fgets 0 100 []]\<rparr>)"
    by (simp add: fgets_def fopen_def start_def with_test_def nil Let_def del: upt_rec_numeral)
  moreover have no: "NUL \<notin> set (map stack_x [0..<100])"
    by (simp add: buffer_stack_x)
  moreover have "c_str (map stack_x [0..<100]) ''0123456789''
      = replicate 100 (CHR ''x'') @ ''0123456789''"
    by (simp add: c_str_no_NUL [OF no]) (simp add: buffer_stack_x)
  then have "main_file_read stack_x ''0123456789'' (with_test []) =
       Exit 0 \<lparr>filesys = with_test [], streams = [None],
               stdout = ''Read: '' @ replicate 100 (CHR ''x'') @ ''0123456789'' @ [newline],
               calls = [Fopen ''test.txt'' ReadMode (Some 0),
                        Fgets 0 100 [],
                        Printf (''Read: '' @ replicate 100 (CHR ''x'') @ ''0123456789''
                                @ [newline]),
                        Fclose 0]\<rparr>"
    using main_file_read_empty [of "with_test []" stack_x "''0123456789''"]
    by (simp add: with_test_def)
  ultimately show ?thesis
    by (simp only: simp_thms)
qed

section \<open>The reader never checks the read\<close>

text \<open>
  Claim C9. Whenever the open of \<^verbatim>\<open>test.txt\<close> succeeds the reader exits with status 0,
  whatever the read gave: its output is one \<^verbatim>\<open>Read: \<close>, what \<^verbatim>\<open>%s\<close> finds in the
  buffer, and a newline. On an empty file \<^verbatim>\<open>fgets\<close> returns nothing (the second call of
  the run stores no byte), the result is not looked at, and the line is printed all the same,
  with what the untouched buffer and the memory behind it hold up to the first null byte.
\<close>

theorem reader_exit_zero:
  assumes "files f ''test.txt'' = Some c" and "''test.txt'' \<notin> read_denied f"
  shows "status (main_file_read stack behind f) = Some 0
       \<and> stdout (final (main_file_read stack behind f))
           = ''Read: ''
             @ (if c = [] then c_str (map stack [0..<100]) behind
                else takeWhile (\<lambda>x. x \<noteq> NUL) (get_line 99 c))
             @ [newline]
       \<and> calls (final (main_file_read stack behind f)) ! 1
           = Fgets 0 100 (if c = [] then [] else get_line 99 c @ [NUL])"
proof (cases "c = []")
  case True
  with assms show ?thesis
    by (simp add: main_file_read_empty del: upt_rec_numeral)
next
  case False
  with assms show ?thesis
    by (simp add: main_file_read_nonempty)
qed

theorem reader_exit_zero_witness:
  "status (main_file_read stack_y ''tail'' (with_test [])) = Some 0
   \<and> stdout (final (main_file_read stack_y ''tail'' (with_test [])))
       = ''Read: '' @ replicate 100 (CHR ''y'') @ ''tail'' @ [newline]
   \<and> calls (final (main_file_read stack_y ''tail'' (with_test []))) ! 1 = Fgets 0 100 []"
proof -
  have "NUL \<notin> set (map stack_y [0..<100])"
    by (simp add: buffer_stack_y)
  then have "c_str (map stack_y [0..<100]) ''tail'' = replicate 100 (CHR ''y'') @ ''tail''"
    by (simp add: c_str_no_NUL) (simp add: buffer_stack_y)
  then show ?thesis
    using reader_exit_zero [of "with_test []" "[]" stack_y "''tail''"]
    by (simp add: with_test_def)
qed

section \<open>The reader leaves the file system alone\<close>

text \<open>
  Claim C10. The reader never modifies \<^verbatim>\<open>test.txt\<close>: on every run the file system it
  leaves is the one it started on (so the contents of \<^verbatim>\<open>test.txt\<close> are what they
  were), and none of its calls opens a file for writing or writes to one.
\<close>

theorem reader_keeps_files:
  "filesys (final (main_file_read stack behind f)) = f
   \<and> filter modifying (calls (final (main_file_read stack behind f))) = []"
proof (cases "files f ''test.txt'' = None \<or> ''test.txt'' \<in> read_denied f")
  case True
  then show ?thesis by (simp add: main_file_read_fail)
next
  case False
  then obtain c where c: "files f ''test.txt'' = Some c" and r: "''test.txt'' \<notin> read_denied f"
    by auto
  show ?thesis
  proof (cases "c = []")
    case True
    with c r show ?thesis
      by (simp add: main_file_read_empty del: upt_rec_numeral)
  next
    case False
    with c r show ?thesis
      by (simp add: main_file_read_nonempty)
  qed
qed

theorem reader_keeps_files_witness:
  "files (filesys (final (main_file_read stack_x ''~'' (with_test (''one'' @ newline # ''two'')))))
     ''test.txt'' = Some (''one'' @ newline # ''two'')"
  using reader_keeps_files [of stack_x "''~''" "with_test (''one'' @ newline # ''two'')"]
  by (simp add: with_test_def)

section \<open>The writer\<close>

text \<open>
  Claim C2, as amended. Whatever \<^verbatim>\<open>output.txt\<close> held before, or if it did not exist,
  when it can be opened for writing and the write of the line succeeds (the file can grow to
  the 14 bytes of the line), the writer leaves it holding exactly the line
  \<^verbatim>\<open>Hello from C!\<close> followed by a newline, and exits with status 0.
\<close>

theorem writer_leaves_hello:
  assumes "''output.txt'' \<notin> write_denied f"
      and "fits f ''output.txt'' (length (''Hello from C!'' @ [newline]))"
  shows "status (main_file_write f) = Some 0
       \<and> files (filesys (final (main_file_write f))) ''output.txt''
           = Some (''Hello from C!'' @ [newline])"
  using main_file_write_ok [OF assms] by simp

theorem writer_leaves_hello_witness:
  "status (main_file_write (with_output ''old contents'')) = Some 0
   \<and> files (filesys (final (main_file_write (with_output ''old contents'')))) ''output.txt''
       = Some (''Hello from C!'' @ [newline])
   \<and> status (main_file_write no_files) = Some 0
   \<and> files (filesys (final (main_file_write no_files))) ''output.txt''
       = Some (''Hello from C!'' @ [newline])"
  using writer_leaves_hello [of "with_output ''old contents''"]
        writer_leaves_hello [of no_files]
  by (simp add: with_output_def no_files_def fits_def)

text \<open>
  As it was stated, for every prior state of \<^verbatim>\<open>output.txt\<close>, the claim fails on a file
  that may not be written: the open fails, the writer exits with status 1 and the file keeps
  its old contents. It also fails on a file that can be opened but cannot grow: the open
  truncates it, the write is lost when the stream is closed, the results of \<^verbatim>\<open>fprintf\<close>
  and \<^verbatim>\<open>fclose\<close> are not looked at, and the writer exits with status 0 and leaves the
  file empty.
\<close>

theorem writer_leaves_hello_counterexample:
  "status (main_file_write (locked_output ''old contents'')) = Some 1
   \<and> files (filesys (final (main_file_write (locked_output ''old contents'')))) ''output.txt''
       = Some ''old contents''
   \<and> status (main_file_write (full_output ''old contents'')) = Some 0
   \<and> files (filesys (final (main_file_write (full_output ''old contents'')))) ''output.txt''
       = Some []"
proof -
  have "main_file_write (locked_output ''old contents'') =
     Exit 1 \<lparr>filesys = locked_output ''old contents'', streams = [],
             stdout = ''Could not create file'' @ [newline],
             calls = [Fopen ''output.txt'' WriteMode None,
                      Printf (''Could not create file'' @ [newline])]\<rparr>"
    by (rule main_file_write_denied) (simp add: locked_output_def)
  moreover have "''output.txt'' \<notin> write_denied (full_output ''old contents'')"
    by (simp add: full_output_def)
  note main_file_write_opened [OF this]
  ultimately show ?thesis
    by (simp add: locked_output_def full_output_def)
qed

text \<open>
  Claim C4, as amended. When \<^verbatim>\<open>output.txt\<close> can be opened for writing and the write of
  the line succeeds, running the writer twice in succession leaves \<^verbatim>\<open>output.txt\<close>
  holding the line of the most recent write once, not twice: the second open truncates what
  the first run wrote. And from every file system, two runs leave the file system that one
  run leaves (the final state is idempotent).
\<close>

theorem writer_twice:
  "written (written f) = written f
   \<and> (''output.txt'' \<notin> write_denied f
        \<and> fits f ''output.txt'' (length (''Hello from C!'' @ [newline])) \<longrightarrow>
        files (written (written f)) ''output.txt'' = Some (''Hello from C!'' @ [newline]))"
proof -
  have "files (written f) ''output.txt'' = Some (''Hello from C!'' @ [newline])"
    if "''output.txt'' \<notin> write_denied f"
      and "fits f ''output.txt'' (length (''Hello from C!'' @ [newline]))"
    using main_file_write_ok [OF that] by (simp add: written_def)
  then show ?thesis
    by (simp only: written_twice) simp
qed

theorem writer_twice_witness:
  "written (written (with_output ''old contents'')) = written (with_output ''old contents'')
   \<and> files (written (written (with_output ''old contents''))) ''output.txt''
       = Some (''Hello from C!'' @ [newline])"
proof -
  have "''output.txt'' \<notin> write_denied (with_output ''old contents'')"
    and "fits (with_output ''old contents'') ''output.txt''
           (length (''Hello from C!'' @ [newline]))"
    by (simp_all add: with_output_def fits_def)
  with writer_twice [of "with_output ''old contents''"] show ?thesis
    by blast
qed

text \<open>
  As it was stated the claim has no condition on the file. On a file that may not be written
  both runs fail at the open and \<^verbatim>\<open>output.txt\<close> still holds its old contents, which no
  write of the writer put there; on a file that can be opened but cannot grow, both runs
  lose their write and \<^verbatim>\<open>output.txt\<close> is left empty.
\<close>

theorem writer_twice_counterexample:
  "files (written (written (locked_output ''old contents''))) ''output.txt''
     = Some ''old contents''
   \<and> files (written (written (full_output ''old contents''))) ''output.txt'' = Some []"
proof -
  have "''output.txt'' \<in> write_denied (locked_output ''old contents'')"
    by (simp add: locked_output_def)
  then have locked: "written (locked_output ''old contents'') = locked_output ''old contents''"
    by (rule written_denied)
  have "''output.txt'' \<notin> write_denied (full_output ''old contents'')"
    by (simp add: full_output_def)
  then have "files (written (full_output ''old contents'')) ''output.txt'' = Some []"
    by (simp add: written_opened) (simp add: full_output_def)
  with locked show ?thesis
    by (simp add: written_twice) (simp add: locked_output_def)
qed

text \<open>
  Claim C8. Whenever \<^verbatim>\<open>output.txt\<close> is opened successfully the writer returns 0, and
  its calls are, in this order: the open, the write of the line, the release of the handle,
  and the print of the success line on standard output.
\<close>

theorem writer_reports_success:
  assumes "''output.txt'' \<notin> write_denied f"
  shows "status (main_file_write f) = Some 0
       \<and> stdout (final (main_file_write f)) = ''File written successfully'' @ [newline]
       \<and> calls (final (main_file_write f))
           = [Fopen ''output.txt'' WriteMode (Some 0),
              Fprintf 0 (''Hello from C!'' @ [newline]),
              Fclose 0,
              Printf (''File written successfully'' @ [newline])]"
  using main_file_write_opened [OF assms] by simp

theorem writer_reports_success_witness:
  "status (main_file_write no_files) = Some 0
   \<and> stdout (final (main_file_write no_files)) = ''File written successfully'' @ [newline]
   \<and> calls (final (main_file_write no_files))
           = [Fopen ''output.txt'' WriteMode (Some 0),
              Fprintf 0 (''Hello from C!'' @ [newline]),
              Fclose 0,
              Printf (''File written successfully'' @ [newline])]"
  using writer_reports_success [of no_files]
  by (simp add: no_files_def)

section \<open>Handles\<close>

text \<open>
  Claim C7. The reader and the writer return on every run, and on every run the handles
  released are exactly the handles acquired, each once: one handle on the path that returns
  0, none on the early return after a failed open (nothing is closed that was not acquired),
  and no handle is open when the function returns. This covers the runs on which the read
  or the write fails after a successful open.
\<close>

theorem handles_released_once:
  "(case main_file_read stack behind f of
      Exit r st \<Rightarrow>
        released (calls st) = acquired (calls st)
        \<and> length (acquired (calls st)) = (if r = 0 then 1 else 0)
        \<and> open_handles st = []
    | Undefined st \<Rightarrow> False)
   \<and> (case main_file_write f of
        Exit r st \<Rightarrow>
          released (calls st) = acquired (calls st)
          \<and> length (acquired (calls st)) = (if r = 0 then 1 else 0)
          \<and> open_handles st = []
      | Undefined st \<Rightarrow> False)"
proof -
  have w: "case main_file_write f of
        Exit r st \<Rightarrow>
          released (calls st) = acquired (calls st)
          \<and> length (acquired (calls st)) = (if r = 0 then 1 else 0)
          \<and> open_handles st = []
      | Undefined st \<Rightarrow> False"
    by (cases "''output.txt'' \<in> write_denied f")
       (simp_all add: main_file_write_denied main_file_write_opened open_handles_def)
  have r: "case main_file_read stack behind f of
      Exit r st \<Rightarrow>
        released (calls st) = acquired (calls st)
        \<and> length (acquired (calls st)) = (if r = 0 then 1 else 0)
        \<and> open_handles st = []
    | Undefined st \<Rightarrow> False"
  proof (cases "files f ''test.txt'' = None \<or> ''test.txt'' \<in> read_denied f")
    case True
    then show ?thesis by (simp add: main_file_read_fail open_handles_def)
  next
    case False
    then obtain c where c: "files f ''test.txt'' = Some c"
      and d: "''test.txt'' \<notin> read_denied f"
      by auto
    show ?thesis
    proof (cases "c = []")
      case True
      with c d show ?thesis
        by (simp add: main_file_read_empty open_handles_def del: upt_rec_numeral)
    next
      case False
      with c d show ?thesis
        by (simp add: main_file_read_nonempty open_handles_def)
    qed
  qed
  from r w show ?thesis by (rule conjI)
qed

text \<open>
  Three runs with a failure after a successful open or at the open: the reader on an empty
  file, the writer on a file that cannot grow, and the writer on a file it may not open.
\<close>

theorem handles_released_once_witness:
  "released (calls (final (main_file_read stack_y ''tail'' (with_test [])))) = [0]
   \<and> acquired (calls (final (main_file_read stack_y ''tail'' (with_test [])))) = [0]
   \<and> open_handles (final (main_file_read stack_y ''tail'' (with_test []))) = []
   \<and> released (calls (final (main_file_write (full_output ''old contents'')))) = [0]
   \<and> acquired (calls (final (main_file_write (full_output ''old contents'')))) = [0]
   \<and> open_handles (final (main_file_write (full_output ''old contents''))) = []
   \<and> released (calls (final (main_file_write (locked_output ''old contents'')))) = []
   \<and> acquired (calls (final (main_file_write (locked_output ''old contents'')))) = []"
proof -
  have "main_file_read stack_y ''tail'' (with_test []) =
     Exit 0 \<lparr>filesys = with_test [], streams = [None],
             stdout = ''Read: '' @ c_str (map stack_y [0..<100]) ''tail'' @ [newline],
             calls = [Fopen ''test.txt'' ReadMode (Some 0),
                      Fgets 0 100 [],
                      Printf (''Read: '' @ c_str (map stack_y [0..<100]) ''tail'' @ [newline]),
                      Fclose 0]\<rparr>"
    by (rule main_file_read_empty) (simp_all add: with_test_def)
  moreover have "''output.txt'' \<notin> write_denied (full_output ''old contents'')"
    by (simp add: full_output_def)
  note main_file_write_opened [OF this]
  moreover have "''output.txt'' \<in> write_denied (locked_output ''old contents'')"
    by (simp add: locked_output_def)
  note main_file_write_denied [OF this]
  ultimately show ?thesis
    using handles_released_once [of stack_y "''tail''" "with_test []"]
          handles_released_once [of stack_y "''tail''" "full_output ''old contents''"]
          handles_released_once [of stack_y "''tail''" "locked_output ''old contents''"]
    by (simp add: open_handles_def)
qed

end
